theory Spec2Isabelle
  imports Complex_Main "HOL-Library.Product_Lexorder" "HOL-Library.Sublist" "HOL-Library.Log_Nat"
begin

section \<open>The bike sharing dashboard (streamlit\_app.py)\<close>

text \<open>
  The script loads two CSV tables with pandas, converts their \<open>dteday\<close> column to
  datetimes, lets the user pick a date range per table, keeps the rows in range, and draws
  four charts from the filtered tables and from two group-by-mean aggregations of them.

  What the libraries do is written out here as far as the script depends on it: a
  \<open>DataFrame\<close> is the list of its rows, in row order; an exception is a value of
  \<open>exn\<close>; what Streamlit shows is a list of elements, in the order of the calls. What
  the script cannot decide by itself is a parameter of the run: what is in the files, how
  pandas parses a date, what the user picks, and whether the calls that draw a chart
  return or raise.
\<close>

subsection \<open>Tables\<close>

text \<open>
  A \<open>datetime.date\<close> is taken by its proleptic ordinal (\<open>date.toordinal()\<close>): Python
  orders dates as it orders their ordinals. A pandas \<open>Timestamp\<close> is a date and the
  nanoseconds since midnight; \<open>.dt.date\<close> keeps the date.
\<close>

type_synonym date = int

datatype timestamp = Timestamp (ts_date: date) (ts_nanos: nat)

text \<open>
  A cell of the \<open>dteday\<close> column: the text \<open>read_csv\<close> found in the file, or the
  timestamp that \<open>pd.to_datetime\<close> made of it.
\<close>

datatype cell = Str string | Ts timestamp

fun is_Ts :: "cell \<Rightarrow> bool" where
  "is_Ts (Ts t) = True"
| "is_Ts (Str s) = False"

fun the_date :: "cell \<Rightarrow> date" where
  "the_date (Ts t) = ts_date t"
| "the_date (Str s) = 0"

text \<open>
  Both tables have the columns \<open>dteday\<close> and \<open>cnt\<close>; the hourly table adds \<open>hr\<close> and
  \<open>is_weekend\<close>, the daily table \<open>temp\<close> and \<open>weathersit\<close>. The script reads no other
  column.
\<close>

record row =
  dteday :: cell
  cnt :: int

record hour_row = row +
  hr :: int
  is_weekend :: int

record day_row = row +
  temp :: rat
  weathersit :: int

datatype exn =
    AttributeError
  | IndexError
  | ValueError string
  | OtherException string

subsection \<open>The filter stage (lines 79 to 87)\<close>

text \<open>
  \<open>df['dteday'].dt.date\<close>: the \<open>.dt\<close> accessor raises \<open>AttributeError\<close> on a column that
  does not hold datetimes.
\<close>

definition dt_date :: "cell list \<Rightarrow> exn + date list" where
  "dt_date col = (if list_all is_Ts col then Inr (map the_date col) else Inl AttributeError)"

text \<open>
  \<open>date_filter[i]\<close>: the value of a range date picker is a tuple of the dates picked so
  far, none, one or two; indexing past its end raises \<open>IndexError\<close>.
\<close>

definition getitem :: "'a list \<Rightarrow> nat \<Rightarrow> exn + 'a" where
  "getitem t i = (if i < length t then Inr (t ! i) else Inl IndexError)"

text \<open>\<open>df[mask]\<close>: a new table of the rows whose entry of the boolean mask is true.\<close>

definition select_rows :: "'r list \<Rightarrow> bool list \<Rightarrow> 'r list" where
  "select_rows df keep = map fst (filter snd (zip df keep))"

text \<open>
  \<open>df[(df['dteday'].dt.date >= date_filter[0]) & (df['dteday'].dt.date <= date_filter[1])]\<close>,
  evaluated left to right.
\<close>

definition filter_by_date :: "'a row_scheme list \<Rightarrow> date list \<Rightarrow> exn + 'a row_scheme list" where
  "filter_by_date df date_filter =
     (case dt_date (map dteday df) of
        Inl e \<Rightarrow> Inl e
      | Inr ds \<Rightarrow>
          (case getitem date_filter 0 of
             Inl e \<Rightarrow> Inl e
           | Inr lo \<Rightarrow>
               (case getitem date_filter 1 of
                  Inl e \<Rightarrow> Inl e
                | Inr hi \<Rightarrow>
                    Inr (select_rows df
                          (map2 (\<and>) (map (\<lambda>d. lo \<le> d) ds) (map (\<lambda>d. d \<le> hi) ds))))))"

text \<open>The table has a date column: every \<open>dteday\<close> cell holds a datetime.\<close>

definition datetime_column :: "'a row_scheme list \<Rightarrow> bool" where
  "datetime_column df = list_all is_Ts (map dteday df)"

text \<open>The date of a row of such a table, as the filter reads it.\<close>

definition row_date :: "'a row_scheme \<Rightarrow> date" where
  "row_date r = the_date (dteday r)"

subsection \<open>The aggregation stage (lines 96 and 131)\<close>

text \<open>
  pandas computes the means in \<open>float64\<close>. A finite \<open>float64\<close> is taken as the rational
  it stands for. \<open>float64 q\<close> is the \<open>float64\<close> nearest to \<open>q\<close>, the tie going to the
  even significand: with \<open>2 ^ e \<le> \<bar>q\<bar> < 2 ^ (e + 1)\<close>, it is \<open>q\<close> rounded to a
  multiple of \<open>2 ^ (e - 52)\<close>. The exponent range of \<open>float64\<close> is left out: the counts are
  \<open>int64\<close> values, and neither their sums nor their means leave it.
\<close>

definition exponent :: "rat \<Rightarrow> int" where
  "exponent q =
     (if 1 \<le> \<bar>q\<bar> then bitlen \<lfloor>\<bar>q\<bar>\<rfloor> - 1 else - bitlen (\<lceil>1 / \<bar>q\<bar>\<rceil> - 1))"

definition round_half_even :: "rat \<Rightarrow> int" where
  "round_half_even x =
     (let n = \<lfloor>x\<rfloor>; r = x - of_int n in
      if r < 1 / 2 then n else if 1 / 2 < r then n + 1 else if even n then n else n + 1)"

definition float64 :: "rat \<Rightarrow> rat" where
  "float64 q =
     (if q = 0 then 0
      else of_int (round_half_even (q * 2 powi (52 - exponent q))) * 2 powi (exponent q - 52))"

text \<open>
  The sum of a group as \<open>group_mean\<close> of pandas accumulates it, row by row, with Kahan's
  compensation, every operation rounded:
  \<^verbatim>\<open>
  y = val - compensation
  t = sumx + y
  compensation = t - sumx - y
  sumx = t
  \<close>
\<close>

fun kahan :: "rat \<Rightarrow> rat \<Rightarrow> rat list \<Rightarrow> rat" where
  "kahan sumx compensation [] = sumx"
| "kahan sumx compensation (val # vals) =
     (let y = float64 (val - compensation);
          t = float64 (sumx + y)
      in kahan t (float64 (float64 (t - sumx) - y)) vals)"

text \<open>
  The mean of a column of counts: the counts are converted to \<open>float64\<close>, summed as
  above, and the sum is divided by the number of rows. \<open>groupby\<close> never takes the mean of
  no rows.
\<close>

definition mean :: "int list \<Rightarrow> rat" where
  "mean xs =
     float64 (kahan 0 0 (map (\<lambda>x. float64 (of_int x)) xs) /
              float64 (of_int (int (length xs))))"

text \<open>
  \<open>df.groupby(key)[val].mean().reset_index()\<close>: one row per distinct key of the table,
  the keys in ascending order (\<open>groupby\<close> sorts by key unless told otherwise; a pair of
  keys is ordered lexicographically), each with the mean of \<open>val\<close> over the rows of that
  key.
\<close>

definition groupby_mean :: "('r \<Rightarrow> 'k::linorder) \<Rightarrow> ('r \<Rightarrow> int) \<Rightarrow> 'r list \<Rightarrow> ('k \<times> rat) list" where
  "groupby_mean key val df =
     map (\<lambda>k. (k, mean (map val (filter (\<lambda>r. key r = k) df)))) (sort (remdups (map key df)))"

subsection \<open>What the page shows\<close>

datatype chart =
    LinePlot "((int \<times> int) \<times> rat) list"
  | BoxPlot "hour_row list"
  | ScatterPlot "day_row list"
  | BarPlot "(int \<times> rat) list"

datatype element =
    StError string
  | SidebarTitle string
  | SidebarImage
  | SidebarWarning string
  | DateInput string date date
  | Title string
  | Subheader string
  | Write string
  | Pyplot chart

fun is_chart :: "element \<Rightarrow> bool" where
  "is_chart (Pyplot c) = True"
| "is_chart _ = False"

subsection \<open>The loader (lines 22 to 33)\<close>

text \<open>
  What opening and parsing a file does: it gives the content, raises \<open>FileNotFoundError\<close>,
  or raises another exception; the text is \<open>str(e)\<close>.
\<close>

datatype 'a io = Ok 'a | FileNotFoundError string | OtherError string

record files =
  hour_csv :: "hour_row list io"
  day_csv :: "day_row list io"
  bike_png :: "unit io"

definition data_files_not_found :: string where
  "data_files_not_found =
     ''Data files not found. Please ensure '' @ [CHR 0x27] @ ''hour_df_2012_cleaned.csv'' @
     [CHR 0x27] @ '' and '' @ [CHR 0x27] @ ''day_df_summer_2011_cleaned.csv'' @ [CHR 0x27] @
     '' are in the same directory as your script.''"

text \<open>
  The result of \<open>load_data\<close>: the pair it returns, the elements it puts on the page and
  the lines it logs. The two files are read in turn inside one \<open>try\<close>, so the first
  read that raises decides the handler, and the second file is not read after it.
\<close>

record loaded =
  tables :: "hour_row list option \<times> day_row list option"
  shown :: "element list"
  log_lines :: "string list"

definition not_found :: loaded where
  "not_found = \<lparr>tables = (None, None), shown = [StError data_files_not_found], log_lines = []\<rparr>"

definition load_error :: "string \<Rightarrow> loaded" where
  "load_error e =
     \<lparr>tables = (None, None),
      shown = [StError (''Error loading data: '' @ e)],
      log_lines = [''Error loading data: '' @ e]\<rparr>"

definition load_data :: "files \<Rightarrow> loaded" where
  "load_data fs =
     (case hour_csv fs of
        FileNotFoundError e \<Rightarrow> not_found
      | OtherError e \<Rightarrow> load_error e
      | Ok hour_df_2012 \<Rightarrow>
          (case day_csv fs of
             FileNotFoundError e \<Rightarrow> not_found
           | OtherError e \<Rightarrow> load_error e
           | Ok day_df_summer_2011 \<Rightarrow>
               \<lparr>tables = (Some hour_df_2012, Some day_df_summer_2011),
                shown = [], log_lines = []\<rparr>))"

subsection \<open>The variables of \<open>main\<close>\<close>

text \<open>
  The state of a run of \<open>main\<close> after a successful load: its variables that hold tables,
  the page so far and the log so far. A variable not assigned yet holds the empty table.
\<close>

record state =
  hour_df_2012 :: "hour_row list"
  day_df_summer_2011 :: "day_row list"
  filtered_hour_df :: "hour_row list"
  filtered_day_df :: "day_row list"
  average_rentals_per_hour :: "((int \<times> int) \<times> rat) list"
  average_rentals_by_weather :: "(int \<times> rat) list"
  page :: "element list"
  logged :: "string list"

definition init :: "hour_row list \<Rightarrow> day_row list \<Rightarrow> loaded \<Rightarrow> state" where
  "init h d l =
     \<lparr>hour_df_2012 = h, day_df_summer_2011 = d, filtered_hour_df = [], filtered_day_df = [],
      average_rentals_per_hour = [], average_rentals_by_weather = [],
      page = shown l, logged = log_lines l\<rparr>"

subsection \<open>The sidebar (lines 45 to 53)\<close>

definition sidebar :: "files \<Rightarrow> state \<Rightarrow> state" where
  "sidebar fs s =
     (let s1 = s\<lparr>page := page s @ [SidebarTitle ''Bike Sharing Dashboard'']\<rparr> in
      case bike_png fs of
        Ok img \<Rightarrow> s1\<lparr>page := page s1 @ [SidebarImage]\<rparr>
      | FileNotFoundError e \<Rightarrow>
          s1\<lparr>page := page s1 @ [SidebarWarning ''Could not load bike image''],
             logged := logged s1 @ [''Could not load bike image: '' @ e]\<rparr>
      | OtherError e \<Rightarrow>
          s1\<lparr>page := page s1 @ [SidebarWarning ''Could not load bike image''],
             logged := logged s1 @ [''Could not load bike image: '' @ e]\<rparr>)"

subsection \<open>Converting the date columns (lines 56 and 57)\<close>

text \<open>
  \<open>pd.to_datetime\<close> on a column: a cell that holds a datetime stays, a text is parsed,
  and a text that is no date raises. The parser is pandas' own; it is the parameter
  \<open>parse\<close>.
\<close>

fun to_datetime :: "(string \<Rightarrow> timestamp option) \<Rightarrow> cell list \<Rightarrow> exn + cell list" where
  "to_datetime parse [] = Inr []"
| "to_datetime parse (Ts t # col) =
     (case to_datetime parse col of Inl e \<Rightarrow> Inl e | Inr col' \<Rightarrow> Inr (Ts t # col'))"
| "to_datetime parse (Str x # col) =
     (case parse x of
        None \<Rightarrow> Inl (ValueError x)
      | Some t \<Rightarrow> (case to_datetime parse col of Inl e \<Rightarrow> Inl e | Inr col' \<Rightarrow> Inr (Ts t # col')))"

text \<open>\<open>df['dteday'] = col\<close>: the table itself gets the new column.\<close>

definition set_dteday :: "'a row_scheme list \<Rightarrow> cell list \<Rightarrow> 'a row_scheme list" where
  "set_dteday df col = map2 (\<lambda>r c. r\<lparr>dteday := c\<rparr>) df col"

definition convert_dates :: "(string \<Rightarrow> timestamp option) \<Rightarrow> state \<Rightarrow> exn + state" where
  "convert_dates parse s =
     (case to_datetime parse (map dteday (hour_df_2012 s)) of
        Inl e \<Rightarrow> Inl e
      | Inr hour_col \<Rightarrow>
          (let s1 = s\<lparr>hour_df_2012 := set_dteday (hour_df_2012 s) hour_col\<rparr> in
           case to_datetime parse (map dteday (day_df_summer_2011 s1)) of
             Inl e \<Rightarrow> Inl e
           | Inr day_col \<Rightarrow>
               Inr (s1\<lparr>day_df_summer_2011 := set_dteday (day_df_summer_2011 s1) day_col\<rparr>)))"

subsection \<open>The date pickers and the title (lines 60 to 76)\<close>

text \<open>
  What a stage of \<open>main\<close> gives: the exception that left it, if one did, and the state
  it got to. The next stage runs when none did.
\<close>

type_synonym stage = "state \<Rightarrow> exn option \<times> state"

definition then_stage :: "exn option \<times> state \<Rightarrow> stage \<Rightarrow> exn option \<times> state" where
  "then_stage r f = (case r of (None, s) \<Rightarrow> f s | (Some e, s) \<Rightarrow> (Some e, s))"

text \<open>
  \<open>st.sidebar.date_input(label, (col.min(), col.max()))\<close>: the picker is offered the
  span of the dates of the column. Of a column with no rows \<open>min\<close> and \<open>max\<close> are
  \<open>NaT\<close>, which has no date, and the call raises. The columns hold datetimes here, the
  conversion having gone before. What the picker returns is what the user has picked: the
  picked tuples are the inputs \<open>date_filter_hour\<close> and \<open>date_filter_day\<close> of the run.
\<close>

definition date_input :: "string \<Rightarrow> cell list \<Rightarrow> stage" where
  "date_input label col s =
     (case col of
        [] \<Rightarrow> (Some (ValueError ''NaTType does not support date''), s)
      | c # cs \<Rightarrow>
          (None,
           s\<lparr>page := page s @
              [DateInput label (fold min (map the_date cs) (the_date c))
                               (fold max (map the_date cs) (the_date c))]\<rparr>))"

definition title :: stage where
  "title s = (None, s\<lparr>page := page s @ [Title ''Bike Sharing Analysis Dashboard'']\<rparr>)"

definition date_inputs :: stage where
  "date_inputs s =
     then_stage
       (then_stage
          (date_input ''Filter Date (Hourly Data 2012)'' (map dteday (hour_df_2012 s)) s)
          (\<lambda>s1. date_input ''Filter Date (Daily Summer 2011)''
                   (map dteday (day_df_summer_2011 s1)) s1))
       title"

subsection \<open>Filtering both tables (lines 79 to 87)\<close>

definition filter_data :: "date list \<Rightarrow> date list \<Rightarrow> state \<Rightarrow> exn + state" where
  "filter_data date_filter_hour date_filter_day s =
     (case filter_by_date (hour_df_2012 s) date_filter_hour of
        Inl e \<Rightarrow> Inl e
      | Inr fh \<Rightarrow>
          (case filter_by_date (day_df_summer_2011 s) date_filter_day of
             Inl e \<Rightarrow> Inl e
           | Inr fd \<Rightarrow> Inr (s\<lparr>filtered_hour_df := fh, filtered_day_df := fd\<rparr>)))"

subsection \<open>The four charts (lines 92 to 139)\<close>

text \<open>
  The calls that draw a chart from a table (\<open>plt.subplots\<close>, the seaborn plot, the calls
  on the axes with their fixed titles, ticks and labels, and \<open>st.pyplot\<close>) are seaborn's,
  matplotlib's and Streamlit's. Whether they return or raise on a given table is theirs to
  decide, so it is a parameter of the run: \<open>None\<close> when the calls return, the exception
  when one of them raises.
\<close>

record plotting =
  lineplot :: "((int \<times> int) \<times> rat) list \<Rightarrow> exn option"
  boxplot :: "hour_row list \<Rightarrow> exn option"
  scatterplot :: "day_row list \<Rightarrow> exn option"
  barplot :: "(int \<times> rat) list \<Rightarrow> exn option"

definition hourly_rentals :: "plotting \<Rightarrow> stage" where
  "hourly_rentals lib s =
     (let s1 = s\<lparr>page := page s @
                 [Subheader ''Hourly Bike Rentals (2012)'',
                  Write ''Visualisasi ini menunjukkan rata-rata jumlah penyewaan sepeda per jam pada tahun 2012, dibedakan berdasarkan hari kerja dan akhir pekan.'']\<rparr>;
          s2 = s1\<lparr>average_rentals_per_hour :=
                    groupby_mean (\<lambda>r. (hr r, is_weekend r)) cnt (filtered_hour_df s1)\<rparr>
      in case lineplot lib (average_rentals_per_hour s2) of
           Some e \<Rightarrow> (Some e, s2)
         | None \<Rightarrow>
             (None, s2\<lparr>page := page s2 @ [Pyplot (LinePlot (average_rentals_per_hour s2))]\<rparr>))"

definition weekend_distribution :: "plotting \<Rightarrow> stage" where
  "weekend_distribution lib s =
     (let s1 = s\<lparr>page := page s @
                 [Write ''Box plot ini menunjukkan sebaran penyewaan sepeda pada hari kerja dan akhir pekan pada tahun 2012.'']\<rparr>
      in case boxplot lib (filtered_hour_df s1) of
           Some e \<Rightarrow> (Some e, s1)
         | None \<Rightarrow> (None, s1\<lparr>page := page s1 @ [Pyplot (BoxPlot (filtered_hour_df s1))]\<rparr>))"

definition temperature_vs_rentals :: "plotting \<Rightarrow> stage" where
  "temperature_vs_rentals lib s =
     (let s1 = s\<lparr>page := page s @
                 [Subheader ''Summer 2011 Bike Rentals (Impact of Weather)'',
                  Write ''Visualisasi ini menunjukkan hubungan antara suhu dan jumlah penyewaan sepeda selama musim panas tahun 2011, serta rata-rata penyewaan berdasarkan kondisi cuaca.'']\<rparr>
      in case scatterplot lib (filtered_day_df s1) of
           Some e \<Rightarrow> (Some e, s1)
         | None \<Rightarrow> (None, s1\<lparr>page := page s1 @ [Pyplot (ScatterPlot (filtered_day_df s1))]\<rparr>))"

definition weather_impact :: "plotting \<Rightarrow> stage" where
  "weather_impact lib s =
     (let s1 = s\<lparr>average_rentals_by_weather :=
                   groupby_mean weathersit cnt (filtered_day_df s)\<rparr>
      in case barplot lib (average_rentals_by_weather s1) of
           Some e \<Rightarrow> (Some e, s1)
         | None \<Rightarrow>
             (None, s1\<lparr>page := page s1 @ [Pyplot (BarPlot (average_rentals_by_weather s1))]\<rparr>))"

definition visualizations :: "plotting \<Rightarrow> stage" where
  "visualizations lib s =
     then_stage
       (then_stage
          (then_stage (hourly_rentals lib s) (weekend_distribution lib))
          (temperature_vs_rentals lib))
       (weather_impact lib)"

subsection \<open>\<open>main\<close> (lines 36 to 139)\<close>

text \<open>
  How a run ends: it reaches the end of \<open>main\<close>, \<open>st.stop()\<close> ends it, or an exception
  leaves \<open>main\<close>.
\<close>

datatype outcome = Completed | Stopped | Raised exn

record run =
  outcome :: outcome
  rendered :: "element list"
  log :: "string list"

definition after_load ::
  "files \<Rightarrow> plotting \<Rightarrow> (string \<Rightarrow> timestamp option) \<Rightarrow> date list \<Rightarrow> date list \<Rightarrow>
   state \<Rightarrow> outcome \<times> state" where
  "after_load fs lib parse date_filter_hour date_filter_day s =
     (let s1 = sidebar fs s in
      case convert_dates parse s1 of
        Inl e \<Rightarrow> (Raised e, s1)
      | Inr s2 \<Rightarrow>
          (case date_inputs s2 of
             (Some e, s3) \<Rightarrow> (Raised e, s3)
           | (None, s3) \<Rightarrow>
               (case filter_data date_filter_hour date_filter_day s3 of
                  Inl e \<Rightarrow> (Raised e, s3)
                | Inr s4 \<Rightarrow>
                    (case visualizations lib s4 of
                       (Some e, s5) \<Rightarrow> (Raised e, s5)
                     | (None, s5) \<Rightarrow> (Completed, s5)))))"

definition main ::
  "files \<Rightarrow> plotting \<Rightarrow> (string \<Rightarrow> timestamp option) \<Rightarrow> date list \<Rightarrow> date list \<Rightarrow> run" where
  "main fs lib parse date_filter_hour date_filter_day =
     (let l = load_data fs in
      case tables l of
        (Some h, Some d) \<Rightarrow>
          (case after_load fs lib parse date_filter_hour date_filter_day (init h d l) of
             (out, s) \<Rightarrow> \<lparr>outcome = out, rendered = page s, log = logged s\<rparr>)
      | _ \<Rightarrow> \<lparr>outcome = Stopped, rendered = shown l, log = log_lines l\<rparr>)"

subsection \<open>The two tables a run starts from\<close>

text \<open>The values of the variables \<open>hour_df_2012\<close> and \<open>day_df_summer_2011\<close>.\<close>

definition source_tables :: "state \<Rightarrow> hour_row list \<times> day_row list" where
  "source_tables s = (hour_df_2012 s, day_df_summer_2011 s)"

subsection \<open>Small tables and a small run\<close>



text \<open>
  Two one-row files as \<open>read_csv\<close> gives them, with the dates still text; a parser that
  knows the two dates (1 January 2012 is day 734503, 21 June 2011 is day 734309) and no
  other text; chart calls that all return; and the states of a run on these before and
  after the conversion of the dates.
\<close>

definition example_parse :: "string \<Rightarrow> timestamp option" where
  "example_parse =
     map_of [(''2012-01-01'', Timestamp 734503 0), (''2011-06-21'', Timestamp 734309 0)]"

definition example_hour :: "hour_row list" where
  "example_hour = [\<lparr>dteday = Str ''2012-01-01'', cnt = 16, hr = 0, is_weekend = 1\<rparr>]"

definition example_day :: "day_row list" where
  "example_day = [\<lparr>dteday = Str ''2011-06-21'', cnt = 4835, temp = 30, weathersit = 2\<rparr>]"

definition example_files :: files where
  "example_files = \<lparr>hour_csv = Ok example_hour, day_csv = Ok example_day, bike_png = Ok ()\<rparr>"

definition charts_drawn :: plotting where
  "charts_drawn =
     \<lparr>lineplot = (\<lambda>t. None), boxplot = (\<lambda>t. None), scatterplot = (\<lambda>t. None),
      barplot = (\<lambda>t. None)\<rparr>"

definition example_loaded :: state where
  "example_loaded = init example_hour example_day (load_data example_files)"

definition example_converted :: state where
  "example_converted =
     (sidebar example_files example_loaded)
       \<lparr>hour_df_2012 := [\<lparr>dteday = Ts (Timestamp 734503 0), cnt = 16, hr = 0, is_weekend = 1\<rparr>],
        day_df_summer_2011 :=
          [\<lparr>dteday = Ts (Timestamp 734309 0), cnt = 4835, temp = 30, weathersit = 2\<rparr>]\<rparr>"

text \<open>The hourly file with a date that is none, month 13.\<close>

definition unparsable_date :: files where
  "unparsable_date =
     \<lparr>hour_csv = Ok [\<lparr>dteday = Str ''2012-13-45'', cnt = 16, hr = 0, is_weekend = 1\<rparr>],
      day_csv = Ok example_day, bike_png = Ok ()\<rparr>"

text \<open>
  An hourly file that is there but cannot be parsed, beside a daily file that is missing.
\<close>

definition malformed_and_missing :: files where
  "malformed_and_missing =
     \<lparr>hour_csv = OtherError ''No columns to parse from file'',
      day_csv = FileNotFoundError ''[Errno 2] No such file or directory'',
      bike_png = Ok ()\<rparr>"

section \<open>Properties\<close>

subsection \<open>The filter stage\<close>

lemma select_rows_mask:
  "select_rows df (map2 (\<and>) (map P (map f df)) (map Q (map f df))) =
   filter (\<lambda>r. P (f r) \<and> Q (f r)) df"
  by (induction df) (simp_all add: select_rows_def)

lemma filter_by_date_pair:
  "datetime_column df \<Longrightarrow>
   filter_by_date df [lo, hi] = Inr (filter (\<lambda>r. lo \<le> row_date r \<and> row_date r \<le> hi) df)"
proof -
  assume "datetime_column df"
  then have "dt_date (map dteday df) = Inr (map (the_date \<circ> dteday) df)"
    by (simp add: datetime_column_def dt_date_def)
  moreover have "select_rows df (map2 (\<and>) (map (\<lambda>d. lo \<le> d) (map (the_date \<circ> dteday) df))
                    (map (\<lambda>d. d \<le> hi) (map (the_date \<circ> dteday) df))) =
                 filter (\<lambda>r. lo \<le> row_date r \<and> row_date r \<le> hi) df"
    using select_rows_mask [of df "\<lambda>d. lo \<le> d" "the_date \<circ> dteday" "\<lambda>d. d \<le> hi"]
    by (simp add: row_date_def)
  ultimately show ?thesis
    by (simp add: filter_by_date_def getitem_def)
qed

lemma datetime_column_filter:
  "datetime_column df \<Longrightarrow> datetime_column (filter P df)"
  by (induction df) (simp_all add: datetime_column_def)

text \<open>
  Claim C1. On a table with a date column and a date pair with \<open>start \<le> finish\<close>, the
  filter returns, without raising, exactly the rows whose date lies in the inclusive range,
  in table order: every returned row is a row of the table with its date in the range, and
  every row of the table with its date in the range is returned.
\<close>

theorem filter_inclusive_range:
  assumes "datetime_column df" and "start \<le> finish"
  shows "\<exists>out. filter_by_date df [start, finish] = Inr out \<and>
           out = filter (\<lambda>r. start \<le> row_date r \<and> row_date r \<le> finish) df \<and>
           (\<forall>r \<in> set out. r \<in> set df \<and> start \<le> row_date r \<and> row_date r \<le> finish) \<and>
           (\<forall>r \<in> set df. start \<le> row_date r \<and> row_date r \<le> finish \<longrightarrow> r \<in> set out)"
  using assms(1) by (simp add: filter_by_date_pair)

theorem filter_inclusive_range_witness:
  "datetime_column [\<lparr>dteday = Ts (Timestamp 734503 0), cnt = 16\<rparr>,
                    \<lparr>dteday = Ts (Timestamp 734510 0), cnt = 40\<rparr>] \<and>
   (734500::int) \<le> 734505 \<and>
   filter_by_date [\<lparr>dteday = Ts (Timestamp 734503 0), cnt = 16\<rparr>,
                   \<lparr>dteday = Ts (Timestamp 734510 0), cnt = 40\<rparr>] [734500, 734505] =
     Inr [\<lparr>dteday = Ts (Timestamp 734503 0), cnt = 16\<rparr>]"
  using filter_inclusive_range
    [of "[\<lparr>dteday = Ts (Timestamp 734503 0), cnt = 16\<rparr>,
          \<lparr>dteday = Ts (Timestamp 734510 0), cnt = 40\<rparr>]" 734500 734505]
  by (simp add: datetime_column_def row_date_def)

text \<open>
  Claim C2. On a table with a date column and a date pair with \<open>start > finish\<close>, the
  filter returns the empty table and does not raise.
\<close>

theorem filter_reversed_range_empty:
  assumes "datetime_column df" and "finish < start"
  shows "filter_by_date df [start, finish] = Inr []"
proof -
  have "filter (\<lambda>r. start \<le> row_date r \<and> row_date r \<le> finish) df = []"
    using assms(2) by (induction df) auto
  with assms(1) show ?thesis
    by (simp add: filter_by_date_pair)
qed

theorem filter_reversed_range_empty_witness:
  "datetime_column [\<lparr>dteday = Ts (Timestamp 734503 0), cnt = 16\<rparr>] \<and>
   (734503::int) < 734504 \<and>
   filter_by_date [\<lparr>dteday = Ts (Timestamp 734503 0), cnt = 16\<rparr>] [734504, 734503] = Inr []"
  using filter_reversed_range_empty
    [of "[\<lparr>dteday = Ts (Timestamp 734503 0), cnt = 16\<rparr>]" 734503 734504]
  by (simp add: datetime_column_def)

text \<open>
  Claim C10. On a table with a date column and any date pair, the rows of the result are
  rows of the table, in the order the table has them, and filtering the result again with
  the same pair returns it unchanged.
\<close>

theorem filter_selective_idempotent:
  assumes "datetime_column df"
  shows "\<exists>out. filter_by_date df [start, finish] = Inr out \<and>
           set out \<subseteq> set df \<and> subseq out df \<and>
           filter_by_date out [start, finish] = Inr out"
proof -
  let ?out = "filter (\<lambda>r. start \<le> row_date r \<and> row_date r \<le> finish) df"
  have "filter_by_date df [start, finish] = Inr ?out"
    using assms by (rule filter_by_date_pair)
  moreover have "set ?out \<subseteq> set df"
    by auto
  moreover have "subseq ?out df"
    by (rule subseq_filter_left)
  moreover have "filter_by_date ?out [start, finish] = Inr ?out"
    using datetime_column_filter [OF assms] by (simp add: filter_by_date_pair)
  ultimately show ?thesis
    by blast
qed

theorem filter_selective_idempotent_witness:
  "datetime_column [\<lparr>dteday = Ts (Timestamp 734503 0), cnt = 16\<rparr>,
                    \<lparr>dteday = Ts (Timestamp 734510 0), cnt = 40\<rparr>,
                    \<lparr>dteday = Ts (Timestamp 734504 0), cnt = 32\<rparr>] \<and>
   filter_by_date [\<lparr>dteday = Ts (Timestamp 734503 0), cnt = 16\<rparr>,
                   \<lparr>dteday = Ts (Timestamp 734510 0), cnt = 40\<rparr>,
                   \<lparr>dteday = Ts (Timestamp 734504 0), cnt = 32\<rparr>] [734500, 734505] =
     Inr [\<lparr>dteday = Ts (Timestamp 734503 0), cnt = 16\<rparr>,
          \<lparr>dteday = Ts (Timestamp 734504 0), cnt = 32\<rparr>] \<and>
   filter_by_date [\<lparr>dteday = Ts (Timestamp 734503 0), cnt = 16\<rparr>,
                   \<lparr>dteday = Ts (Timestamp 734504 0), cnt = 32\<rparr>] [734500, 734505] =
     Inr [\<lparr>dteday = Ts (Timestamp 734503 0), cnt = 16\<rparr>,
          \<lparr>dteday = Ts (Timestamp 734504 0), cnt = 32\<rparr>]"
  using filter_selective_idempotent
    [of "[\<lparr>dteday = Ts (Timestamp 734503 0), cnt = 16\<rparr>,
          \<lparr>dteday = Ts (Timestamp 734510 0), cnt = 40\<rparr>,
          \<lparr>dteday = Ts (Timestamp 734504 0), cnt = 32\<rparr>]" 734500 734505]
  by (simp add: datetime_column_def filter_by_date_def dt_date_def getitem_def select_rows_def)

subsection \<open>Rounding to \<open>float64\<close>\<close>

text \<open>
  An integer below \<open>2 ^ 53\<close> is a \<open>float64\<close>, so the sum of non-negative counts is exact
  as long as it stays below \<open>2 ^ 53\<close>, and the mean is then the quotient of the exact sum
  and the number of rows, rounded once. The exponent is the one of the binary
  representation, and rounding moves a number by at most half a unit in the last place,
  which is a relative error of at most \<open>2 ^ - 53\<close>.
\<close>

lemma round_half_even_of_int: "round_half_even (of_int k) = k"
  by (simp add: round_half_even_def)

lemma exponent_of_int:
  assumes "z \<noteq> 0"
  shows "exponent (of_int z) = bitlen \<bar>z\<bar> - 1"
proof -
  from assms have "1 \<le> \<bar>z\<bar>"
    by simp
  then have "(1::rat) \<le> of_int \<bar>z\<bar>"
    by (simp only: of_int_1_le_iff)
  then have "(1::rat) \<le> \<bar>of_int z\<bar>"
    by simp
  moreover have "\<lfloor>\<bar>of_int z :: rat\<bar>\<rfloor> = \<bar>z\<bar>"
    by (simp flip: of_int_abs)
  ultimately show ?thesis
    by (simp add: exponent_def)
qed

lemma float64_of_int:
  assumes "\<bar>z\<bar> < 2 ^ 53"
  shows "float64 (of_int z) = of_int z"
proof (cases "z = 0")
  case True
  then show ?thesis by (simp add: float64_def)
next
  case False
  define e where "e = bitlen \<bar>z\<bar> - 1"
  have e: "exponent (of_int z) = e"
    using False by (simp add: exponent_of_int e_def)
  from assms have "bitlen \<bar>z\<bar> \<le> 53"
    by (simp add: bitlen_le_iff_power)
  then have "0 \<le> 52 - e"
    by (simp add: e_def)
  then obtain n where n: "52 - e = int n"
    using nonneg_int_cases by blast
  then have en: "e - 52 = - int n"
    by simp
  have "(of_int z :: rat) * 2 powi (52 - e) = of_int (z * 2 ^ n)"
    by (simp add: n)
  then have "round_half_even (of_int z * 2 powi (52 - e)) = z * 2 ^ n"
    by (simp only: round_half_even_of_int)
  then have "float64 (of_int z) = of_int (z * 2 ^ n) * 2 powi (e - 52)"
    using False by (simp add: float64_def e)
  also have "\<dots> = of_int z"
    by (simp add: en power_int_minus)
  finally show ?thesis .
qed

lemma kahan_small:
  assumes "\<forall>x \<in> set xs. 0 \<le> x" and "0 \<le> s" and "s + sum_list xs < 2 ^ 53"
  shows "kahan (of_int s) 0 (map (\<lambda>x. float64 (of_int x)) xs) = of_int (s + sum_list xs)"
  using assms
proof (induction xs arbitrary: s)
  case Nil
  then show ?case by simp
next
  case (Cons x xs)
  from Cons.prems have x: "0 \<le> x" and rest: "\<forall>x \<in> set xs. 0 \<le> x"
    by simp_all
  from rest have "0 \<le> sum_list xs"
    by (simp add: sum_list_nonneg)
  with Cons.prems x have bx: "\<bar>x\<bar> < 2 ^ 53" and bs: "\<bar>s + x\<bar> < 2 ^ 53"
    by simp_all
  have fx: "float64 (of_int x) = of_int x"
    using bx by (rule float64_of_int)
  have ft: "float64 (of_int s + of_int x) = of_int (s + x)"
    using float64_of_int [OF bs] by simp
  have f0: "float64 0 = 0"
    by (simp add: float64_def)
  have step: "kahan (of_int s) 0 (map (\<lambda>x. float64 (of_int x)) (x # xs)) =
              kahan (of_int (s + x)) 0 (map (\<lambda>x. float64 (of_int x)) xs)"
    by (simp add: fx ft f0 Let_def)
  from Cons.prems x have "0 \<le> s + x" and "s + x + sum_list xs < 2 ^ 53"
    by simp_all
  from Cons.IH [OF rest this] step show ?case
    by (simp add: add.assoc)
qed

lemma mean_small:
  assumes "\<forall>x \<in> set xs. 0 \<le> x" and "sum_list xs < 2 ^ 53" and "int (length xs) < 2 ^ 53"
  shows "mean xs = float64 (of_int (sum_list xs) / of_int (int (length xs)))"
proof -
  have "kahan 0 0 (map (\<lambda>x. float64 (of_int x)) xs) = of_int (sum_list xs)"
    using kahan_small [of xs 0] assms by simp
  moreover have "float64 (of_int (int (length xs))) = of_int (int (length xs))"
    using assms(3) by (intro float64_of_int) simp
  ultimately show ?thesis
    by (simp add: mean_def)
qed

lemma mean_single: "0 \<le> x \<Longrightarrow> x < 2 ^ 53 \<Longrightarrow> mean [x] = of_int x"
  using mean_small [of "[x]"] float64_of_int [of x] by simp





subsection \<open>The aggregation stage\<close>

lemma groupby_mean_keys:
  "map fst (groupby_mean key val df) = sort (remdups (map key df))"
  by (simp add: groupby_mean_def comp_def)

lemma groupby_mean_keys_strictly_ascending:
  "sorted_wrt (<) (map fst (groupby_mean key val df))"
  by (simp add: groupby_mean_keys strict_sorted_iff)




lemma groupby_mean_empty: "groupby_mean key val [] = []"
  by (simp add: groupby_mean_def)




lemma hour_groups:
  "groupby_mean (\<lambda>r. (hr r, is_weekend r)) cnt
     [\<lparr>dteday = d1, cnt = 100, hr = 8, is_weekend = 0\<rparr>,
      \<lparr>dteday = d2, cnt = 40, hr = 8, is_weekend = 1\<rparr>] =
   [((8, 0), 100), ((8, 1), 40)]"
  by (simp add: groupby_mean_def mean_single)




text \<open>
  Claim C7. Both group-by-mean aggregations come out in strictly ascending order of the
  grouping key: of the pair (hour, weekend indicator), ordered lexicographically, for the
  hourly table, and of the weather code for the daily table, whatever the chart calls do.
  The output is a function of the table, so the same table gives the same rows in the same
  order.
\<close>

theorem aggregations_sorted_by_key:
  "sorted_wrt (<) (map fst (average_rentals_per_hour (snd (hourly_rentals lib s)))) \<and>
   sorted_wrt (<) (map fst (average_rentals_by_weather (snd (weather_impact lib s))))"
  by (simp add: hourly_rentals_def weather_impact_def Let_def
        groupby_mean_keys_strictly_ascending split: option.split)

text \<open>
  Claim C9. For the filtered hourly table of exactly the rows (hour 8, weekend 0, count
  100) and (hour 8, weekend 1, count 40), whatever their dates, the aggregation by (hour,
  weekend) has exactly two groups, with the means 100 and 40 in that order.
\<close>

theorem two_row_scenario:
  "average_rentals_per_hour
     (snd (hourly_rentals lib
        (s\<lparr>filtered_hour_df :=
             [\<lparr>dteday = d1, cnt = 100, hr = 8, is_weekend = 0\<rparr>,
              \<lparr>dteday = d2, cnt = 40, hr = 8, is_weekend = 1\<rparr>]\<rparr>))) =
   [((8, 0), 100), ((8, 1), 40)]"
  by (simp add: hourly_rentals_def hour_groups Let_def split: option.split)

subsection \<open>What reaches the filter stage\<close>

text \<open>
  The conversion changes the \<open>dteday\<close> column of a table and nothing else of it, and
  after it both tables have a date column, so the filter never meets a cell that is still
  text. A picker that holds one date only makes the filter raise.
\<close>

lemma to_datetime_column:
  "to_datetime parse col = Inr col' \<Longrightarrow> list_all is_Ts col' \<and> length col' = length col"
proof (induction parse col arbitrary: col' rule: to_datetime.induct)
  case (1 parse)
  then show ?case by simp
next
  case (2 parse t col)
  then show ?case by (auto split: sum.splits)
next
  case (3 parse x col)
  then show ?case by (auto split: option.splits sum.splits)
qed

lemma dteday_set_dteday:
  "length col = length df \<Longrightarrow> map dteday (set_dteday df col) = col"
proof (induction df arbitrary: col)
  case Nil
  then show ?case by (simp add: set_dteday_def)
next
  case (Cons r df)
  then show ?case by (cases col) (simp_all add: set_dteday_def)
qed

lemma set_dteday_only_dteday:
  "length col = length df \<Longrightarrow>
   list_all2 (\<lambda>r r'. r' = r\<lparr>dteday := dteday r'\<rparr>) df (set_dteday df col)"
proof (induction df arbitrary: col)
  case Nil
  then show ?case by (simp add: set_dteday_def)
next
  case (Cons r df)
  then show ?case by (cases col) (simp_all add: set_dteday_def)
qed

lemma convert_dates_result:
  assumes "convert_dates parse s = Inr s'"
  obtains hc dc where
    "to_datetime parse (map dteday (hour_df_2012 s)) = Inr hc"
    "to_datetime parse (map dteday (day_df_summer_2011 s)) = Inr dc"
    "s' = s\<lparr>hour_df_2012 := set_dteday (hour_df_2012 s) hc,
            day_df_summer_2011 := set_dteday (day_df_summer_2011 s) dc\<rparr>"
  using assms by (auto simp: convert_dates_def Let_def split: sum.splits)

lemma convert_dates_datetime_column:
  assumes "convert_dates parse s = Inr s'"
  shows "datetime_column (hour_df_2012 s') \<and> datetime_column (day_df_summer_2011 s')"
proof -
  from assms obtain hc dc where
    hc: "to_datetime parse (map dteday (hour_df_2012 s)) = Inr hc" and
    dc: "to_datetime parse (map dteday (day_df_summer_2011 s)) = Inr dc" and
    s': "s' = s\<lparr>hour_df_2012 := set_dteday (hour_df_2012 s) hc,
               day_df_summer_2011 := set_dteday (day_df_summer_2011 s) dc\<rparr>"
    by (rule convert_dates_result)
  from to_datetime_column [OF hc] have "map dteday (set_dteday (hour_df_2012 s) hc) = hc"
    by (simp add: dteday_set_dteday)
  moreover from to_datetime_column [OF dc]
  have "map dteday (set_dteday (day_df_summer_2011 s) dc) = dc"
    by (simp add: dteday_set_dteday)
  ultimately show ?thesis
    using to_datetime_column [OF hc] to_datetime_column [OF dc]
    by (simp add: s' datetime_column_def)
qed

lemma convert_dates_only_dteday:
  assumes "convert_dates parse s = Inr s'"
  shows "list_all2 (\<lambda>r r'. r' = r\<lparr>dteday := dteday r'\<rparr>) (hour_df_2012 s) (hour_df_2012 s') \<and>
         list_all2 (\<lambda>r r'. r' = r\<lparr>dteday := dteday r'\<rparr>)
           (day_df_summer_2011 s) (day_df_summer_2011 s')"
proof -
  from assms obtain hc dc where
    hc: "to_datetime parse (map dteday (hour_df_2012 s)) = Inr hc" and
    dc: "to_datetime parse (map dteday (day_df_summer_2011 s)) = Inr dc" and
    s': "s' = s\<lparr>hour_df_2012 := set_dteday (hour_df_2012 s) hc,
               day_df_summer_2011 := set_dteday (day_df_summer_2011 s) dc\<rparr>"
    by (rule convert_dates_result)
  from to_datetime_column [OF hc] have "length hc = length (hour_df_2012 s)"
    by simp
  moreover from to_datetime_column [OF dc] have "length dc = length (day_df_summer_2011 s)"
    by simp
  ultimately show ?thesis
    by (simp add: s' set_dteday_only_dteday)
qed

lemma filter_by_date_one_date:
  "datetime_column df \<Longrightarrow> filter_by_date df [d] = Inl IndexError"
  by (simp add: filter_by_date_def datetime_column_def dt_date_def getitem_def)

lemma filter_by_date_out_of_span:
  assumes "datetime_column df" and "\<forall>r \<in> set df. row_date r < lo \<or> hi < row_date r"
  shows "filter_by_date df [lo, hi] = Inr []"
proof -
  have "filter (\<lambda>r. lo \<le> row_date r \<and> row_date r \<le> hi) df = []"
    using assms(2) by (induction df) auto
  with assms(1) show ?thesis
    by (simp add: filter_by_date_pair)
qed

subsection \<open>The source tables\<close>

lemma source_tables_sidebar: "source_tables (sidebar fs s) = source_tables s"
  by (simp add: source_tables_def sidebar_def Let_def split: io.split)

lemma source_tables_then_stage:
  assumes "\<And>t. source_tables (snd (f t)) = source_tables t"
  shows "source_tables (snd (then_stage r f)) = source_tables (snd r)"
  using assms by (cases r) (simp add: then_stage_def split: option.split)

lemma source_tables_date_input: "source_tables (snd (date_input label col s)) = source_tables s"
  by (simp add: source_tables_def date_input_def split: list.split)

lemma source_tables_title: "source_tables (snd (title s)) = source_tables s"
  by (simp add: source_tables_def title_def)

lemma source_tables_date_inputs: "source_tables (snd (date_inputs s)) = source_tables s"
  by (simp add: date_inputs_def source_tables_then_stage source_tables_date_input
        source_tables_title)

lemma source_tables_filter_data:
  "filter_data fh fd s = Inr s' \<Longrightarrow> source_tables s' = source_tables s"
  by (auto simp: filter_data_def source_tables_def split: sum.splits)

lemma source_tables_hourly_rentals:
  "source_tables (snd (hourly_rentals lib s)) = source_tables s"
  by (simp add: source_tables_def hourly_rentals_def Let_def split: option.split)

lemma source_tables_weekend_distribution:
  "source_tables (snd (weekend_distribution lib s)) = source_tables s"
  by (simp add: source_tables_def weekend_distribution_def Let_def split: option.split)

lemma source_tables_temperature_vs_rentals:
  "source_tables (snd (temperature_vs_rentals lib s)) = source_tables s"
  by (simp add: source_tables_def temperature_vs_rentals_def Let_def split: option.split)

lemma source_tables_weather_impact:
  "source_tables (snd (weather_impact lib s)) = source_tables s"
  by (simp add: source_tables_def weather_impact_def Let_def split: option.split)

lemma source_tables_visualizations:
  "source_tables (snd (visualizations lib s)) = source_tables s"
  by (simp add: visualizations_def source_tables_then_stage source_tables_weather_impact
        source_tables_temperature_vs_rentals source_tables_weekend_distribution
        source_tables_hourly_rentals)

lemma select_rows_subseq: "subseq (select_rows df keep) df"
proof (induction df arbitrary: keep)
  case Nil
  then show ?case by (simp add: select_rows_def)
next
  case (Cons r df)
  show ?case
  proof (cases keep)
    case Nil
    then show ?thesis by (simp add: select_rows_def)
  next
    case (Cons b bs)
    with Cons.IH [of bs] show ?thesis
      by (auto simp: select_rows_def intro: subseq_Cons')
  qed
qed

lemma filter_by_date_subseq:
  "filter_by_date df date_filter = Inr out \<Longrightarrow> subseq out df"
  by (auto simp: filter_by_date_def select_rows_subseq split: sum.splits)

lemma filter_data_views:
  "filter_data fh fd s = Inr s' \<Longrightarrow>
   subseq (filtered_hour_df s') (hour_df_2012 s) \<and>
   subseq (filtered_day_df s') (day_df_summer_2011 s)"
  by (auto simp: filter_data_def split: sum.splits dest: filter_by_date_subseq)

lemma after_load_source_tables:
  assumes "convert_dates parse (sidebar fs s0) = Inr s2"
    and "after_load fs lib parse fh fd s0 = (out, s')"
  shows "source_tables s' = source_tables s2"
proof (cases "date_inputs s2")
  case (Pair r3 s3)
  have s3: "source_tables s3 = source_tables s2"
    using source_tables_date_inputs [of s2] Pair by simp
  show ?thesis
  proof (cases r3)
    case (Some e)
    with assms Pair have "s' = s3"
      by (simp add: after_load_def Let_def)
    with s3 show ?thesis by simp
  next
    case None
    show ?thesis
    proof (cases "filter_data fh fd s3")
      case (Inl e)
      with assms Pair None have "s' = s3"
        by (simp add: after_load_def Let_def)
      with s3 show ?thesis by simp
    next
      case (Inr s4)
      with assms Pair None have "s' = snd (visualizations lib s4)"
        by (simp add: after_load_def Let_def split: prod.splits option.splits)
      with source_tables_filter_data [OF Inr] s3 show ?thesis
        by (simp add: source_tables_visualizations)
    qed
  qed
qed

text \<open>
  Claim C3. The tables are loaded when \<open>load_data\<close> has read them and lines 56 and 57
  have parsed their dates, which changes the \<open>dteday\<close> column and no other field of any
  row. From then on nothing mutates them: however the rest of the run ends, it ends with
  both tables as the conversion left them; the date pickers, the filter stage and each of
  the four chart stages, whether its chart calls return or raise, leave both tables as they
  find them; and the filtered tables are subsequences of the rows of their source.
\<close>

theorem source_tables_never_mutated:
  assumes "convert_dates parse (sidebar fs s0) = Inr s2"
    and "after_load fs lib parse fh fd s0 = (out, s')"
  shows "source_tables s' = source_tables s2 \<and>
         list_all2 (\<lambda>r r'. r' = r\<lparr>dteday := dteday r'\<rparr>) (hour_df_2012 s0) (hour_df_2012 s2) \<and>
         list_all2 (\<lambda>r r'. r' = r\<lparr>dteday := dteday r'\<rparr>)
           (day_df_summer_2011 s0) (day_df_summer_2011 s2) \<and>
         source_tables (snd (date_inputs t)) = source_tables t \<and>
         (\<forall>t'. filter_data fh fd t = Inr t' \<longrightarrow>
            source_tables t' = source_tables t \<and>
            subseq (filtered_hour_df t') (hour_df_2012 t) \<and>
            subseq (filtered_day_df t') (day_df_summer_2011 t)) \<and>
         source_tables (snd (hourly_rentals lib t)) = source_tables t \<and>
         source_tables (snd (weekend_distribution lib t)) = source_tables t \<and>
         source_tables (snd (temperature_vs_rentals lib t)) = source_tables t \<and>
         source_tables (snd (weather_impact lib t)) = source_tables t \<and>
         source_tables (snd (visualizations lib t)) = source_tables t"
proof -
  have "source_tables s' = source_tables s2"
    using assms by (rule after_load_source_tables)
  moreover from convert_dates_only_dteday [OF assms(1)] source_tables_sidebar [of fs s0]
  have "list_all2 (\<lambda>r r'. r' = r\<lparr>dteday := dteday r'\<rparr>) (hour_df_2012 s0) (hour_df_2012 s2) \<and>
        list_all2 (\<lambda>r r'. r' = r\<lparr>dteday := dteday r'\<rparr>)
          (day_df_summer_2011 s0) (day_df_summer_2011 s2)"
    by (simp add: source_tables_def)
  ultimately show ?thesis
    by (simp add: source_tables_date_inputs source_tables_filter_data filter_data_views
          source_tables_hourly_rentals source_tables_weekend_distribution
          source_tables_temperature_vs_rentals source_tables_weather_impact
          source_tables_visualizations)
qed

lemma example_conversion:
  "convert_dates example_parse (sidebar example_files example_loaded) = Inr example_converted"
  by (simp add: example_converted_def example_loaded_def example_files_def example_hour_def
        example_day_def example_parse_def load_data_def init_def sidebar_def convert_dates_def
        set_dteday_def Let_def)

theorem source_tables_never_mutated_witness:
  "convert_dates example_parse (sidebar example_files example_loaded) = Inr example_converted \<and>
   source_tables
     (snd (after_load example_files charts_drawn example_parse
             [734503, 734503] [734309, 734309] example_loaded)) =
     ([\<lparr>dteday = Ts (Timestamp 734503 0), cnt = 16, hr = 0, is_weekend = 1\<rparr>],
      [\<lparr>dteday = Ts (Timestamp 734309 0), cnt = 4835, temp = 30, weathersit = 2\<rparr>])"
proof -
  have run: "after_load example_files charts_drawn example_parse
               [734503, 734503] [734309, 734309] example_loaded =
             (fst (after_load example_files charts_drawn example_parse
                     [734503, 734503] [734309, 734309] example_loaded),
              snd (after_load example_files charts_drawn example_parse
                     [734503, 734503] [734309, 734309] example_loaded))"
    by simp
  from source_tables_never_mutated [OF example_conversion run]
  have "source_tables
     (snd (after_load example_files charts_drawn example_parse
             [734503, 734503] [734309, 734309] example_loaded)) =
     source_tables example_converted"
    by (rule conjunct1)
  then show ?thesis
    by (simp add: example_conversion) (simp add: source_tables_def example_converted_def)
qed

subsection \<open>The loader\<close>

lemma main_not_loaded:
  "tables (load_data fs) = (None, None) \<Longrightarrow>
   main fs lib parse fh fd =
     \<lparr>outcome = Stopped, rendered = shown (load_data fs), log = log_lines (load_data fs)\<rparr>"
  by (simp add: main_def Let_def)

text \<open>
  Claim C4, as stated, fails: when the hourly file is there but cannot be parsed and the
  daily file is missing, the read of the hourly file raises first, the handler for other
  exceptions runs, and the page shows the load error, not the message for missing files.
\<close>

theorem missing_file_behind_malformed_file:
  "day_csv malformed_and_missing = FileNotFoundError ''[Errno 2] No such file or directory'' \<and>
   load_data malformed_and_missing = load_error ''No columns to parse from file'' \<and>
   main malformed_and_missing charts_drawn example_parse [] [] =
     \<lparr>outcome = Stopped,
      rendered = [StError ''Error loading data: No columns to parse from file''],
      log = [''Error loading data: No columns to parse from file'']\<rparr> \<and>
   StError data_files_not_found \<notin>
     set (rendered (main malformed_and_missing charts_drawn example_parse [] []))"
  by (simp add: malformed_and_missing_def load_data_def load_error_def main_def Let_def
        data_files_not_found_def)

text \<open>
  Claim C4, amended. If the hourly file is missing, or the hourly file is read and the
  daily file is missing, \<open>load_data\<close> shows the message for missing files and returns
  \<open>(None, None)\<close>; \<open>main\<close> then stops the run with \<open>st.stop()\<close>, no exception
  leaves it, and the page holds that message and no chart.
\<close>

theorem missing_file_stops_run:
  assumes "hour_csv fs = FileNotFoundError e \<or> (hour_csv fs = Ok h \<and> day_csv fs = FileNotFoundError e)"
  shows "load_data fs = not_found \<and>
         main fs lib parse date_filter_hour date_filter_day =
           \<lparr>outcome = Stopped, rendered = [StError data_files_not_found], log = []\<rparr> \<and>
         filter is_chart (rendered (main fs lib parse date_filter_hour date_filter_day)) = []"
proof -
  from assms have l: "load_data fs = not_found"
    by (auto simp: load_data_def)
  then have "tables (load_data fs) = (None, None)"
    by (simp add: not_found_def)
  from main_not_loaded [OF this] l show ?thesis
    by (simp add: not_found_def)
qed

theorem missing_file_stops_run_witness:
  "main \<lparr>hour_csv = Ok example_hour,
         day_csv = FileNotFoundError ''[Errno 2] No such file or directory'',
         bike_png = Ok ()\<rparr> charts_drawn example_parse [734503, 734503] [734309, 734309] =
     \<lparr>outcome = Stopped, rendered = [StError data_files_not_found], log = []\<rparr>"
  using missing_file_stops_run
    [of "\<lparr>hour_csv = Ok example_hour,
          day_csv = FileNotFoundError ''[Errno 2] No such file or directory'',
          bike_png = Ok ()\<rparr>" "''[Errno 2] No such file or directory''" example_hour]
  by simp

text \<open>
  Claim C5, as stated, fails: the script guards the reading of the files and nothing
  after it. When both files are read and a date of the hourly file cannot be parsed,
  \<open>pd.to_datetime\<close> raises at line 56, outside \<open>load_data\<close> and outside any
  \<open>try\<close>: the exception leaves \<open>main\<close>, and the script has shown no message, logged
  nothing and has not called \<open>st.stop()\<close>.
\<close>

theorem unparsable_date_leaves_main:
  "load_data unparsable_date =
     \<lparr>tables = (Some [\<lparr>dteday = Str ''2012-13-45'', cnt = 16, hr = 0, is_weekend = 1\<rparr>],
                Some example_day),
      shown = [], log_lines = []\<rparr> \<and>
   example_parse ''2012-13-45'' = None \<and>
   main unparsable_date charts_drawn example_parse [734503, 734503] [734309, 734309] =
     \<lparr>outcome = Raised (ValueError ''2012-13-45''),
      rendered = [SidebarTitle ''Bike Sharing Dashboard'', SidebarImage],
      log = []\<rparr>"
  by (simp add: unparsable_date_def load_data_def main_def after_load_def init_def sidebar_def
        convert_dates_def example_parse_def Let_def)

text \<open>
  Claim C5, amended. If reading the files fails for a reason other than a missing file,
  that is, the first read that fails raises anything but \<open>FileNotFoundError\<close>,
  \<open>load_data\<close> logs and shows \<open>Error loading data:\<close> followed by the text of the
  exception and returns \<open>(None, None)\<close>; \<open>main\<close> then stops the run with
  \<open>st.stop()\<close>, no exception leaves it, and the page holds that message and no chart.
\<close>

theorem load_error_stops_run:
  assumes "hour_csv fs = OtherError e \<or> (hour_csv fs = Ok h \<and> day_csv fs = OtherError e)"
  shows "load_data fs = load_error e \<and>
         main fs lib parse date_filter_hour date_filter_day =
           \<lparr>outcome = Stopped,
            rendered = [StError (''Error loading data: '' @ e)],
            log = [''Error loading data: '' @ e]\<rparr> \<and>
         filter is_chart (rendered (main fs lib parse date_filter_hour date_filter_day)) = []"
proof -
  from assms have l: "load_data fs = load_error e"
    by (auto simp: load_data_def)
  then have "tables (load_data fs) = (None, None)"
    by (simp add: load_error_def)
  from main_not_loaded [OF this] l show ?thesis
    by (simp add: load_error_def)
qed

theorem load_error_stops_run_witness:
  "main \<lparr>hour_csv = Ok example_hour,
         day_csv = OtherError ''Error tokenizing data'',
         bike_png = Ok ()\<rparr> charts_drawn example_parse [734503, 734503] [734309, 734309] =
     \<lparr>outcome = Stopped,
      rendered = [StError ''Error loading data: Error tokenizing data''],
      log = [''Error loading data: Error tokenizing data'']\<rparr>"
  using load_error_stops_run
    [of "\<lparr>hour_csv = Ok example_hour,
          day_csv = OtherError ''Error tokenizing data'',
          bike_png = Ok ()\<rparr>" "''Error tokenizing data''" example_hour]
  by simp

subsection \<open>Empty tables\<close>

text \<open>
  What the script itself does with empty tables. A source table with no rows makes its
  date picker raise. Of an empty filtered table both aggregations are empty, and the four
  chart stages hand empty tables to the chart calls: they all return exactly when each of
  these calls returns on the empty table, which is for seaborn and matplotlib to decide.
\<close>

lemma date_inputs_empty_hourly_table:
  "hour_df_2012 s = [] \<Longrightarrow>
   date_inputs s = (Some (ValueError ''NaTType does not support date''), s)"
  by (simp add: date_inputs_def date_input_def then_stage_def)

lemma empty_tables_aggregations:
  "filtered_hour_df s = [] \<Longrightarrow> average_rentals_per_hour (snd (hourly_rentals lib s)) = []"
  "filtered_day_df s = [] \<Longrightarrow> average_rentals_by_weather (snd (weather_impact lib s)) = []"
  by (simp_all add: hourly_rentals_def weather_impact_def groupby_mean_empty Let_def
        split: option.split)

lemma visualizations_empty_tables:
  assumes "filtered_hour_df s = []" and "filtered_day_df s = []"
  shows "fst (visualizations lib s) = None \<longleftrightarrow>
         lineplot lib [] = None \<and> boxplot lib [] = None \<and>
         scatterplot lib [] = None \<and> barplot lib [] = None"
  using assms
  by (simp add: visualizations_def then_stage_def hourly_rentals_def weekend_distribution_def
        temperature_vs_rentals_def weather_impact_def groupby_mean_empty Let_def
        split: option.split)

end
